theory Spec2Isabelle
  imports Complex_Main
begin

section \<open>Values shared by the whole analysis class\<close>

text \<open>
  The class \<open>IV_curve3\<close> of \<open>qkit/analysis/IV_curve3.py\<close> works on numpy arrays of
  64-bit floats. A float is modelled by the real number it denotes, or by one of the three
  special values. Rounding, overflow and the sign of zero are outside the model; every
  operation below follows IEEE 754 on the special values.
\<close>

datatype fl = Fin real | PInf | MInf | NaN

fun isnan :: "fl \<Rightarrow> bool" where
  "isnan NaN = True"
| "isnan _ = False"

text \<open>\<open>a == b\<close> on floats: NaN is equal to nothing, not even to itself.\<close>

fun fl_eq :: "fl \<Rightarrow> fl \<Rightarrow> bool" where
  "fl_eq (Fin a) (Fin b) = (a = b)"
| "fl_eq PInf PInf = True"
| "fl_eq MInf MInf = True"
| "fl_eq _ _ = False"

text \<open>The exceptions the modelled code can raise, by their Python class.\<close>

datatype error =
    TypeError | ValueError | IndexError | KeyError | AttributeError
  | NotImplementedError | LinAlgError | AxisError

text \<open>
  A sweep is the triple \<open>(start, stop, step)\<close>; an array of a scan of dimension 1 has one
  row per sweep and one column per sweep point.
\<close>

type_synonym sweep = "fl \<times> fl \<times> fl"
type_synonym arr1 = "fl list"
type_synonym arr2 = "fl list list"

text \<open>
  The attributes that \<open>__init__\<close> sets on the object, under their names. \<open>mo_json\<close> stands
  for what \<open>self.mo.get_JSON()\<close> returns; the data file handle \<open>df\<close> is the argument of
  the functions that read it.
\<close>

record ivc =
  uuid :: "string option"
  path :: "string option"
  mo_json :: string
  m_type :: "string option"
  scan_dim :: "nat option"
  sweeptype :: "nat option"
  sweeps :: "sweep list option"
  bias :: "nat option"
  I :: "arr2 option"
  V :: "arr2 option"
  V_corr :: "arr2 option"
  dVdI :: "arr2 option"
  I_offsets :: "fl option"
  V_offsets :: "fl option"
  I_offset :: "fl option"
  V_offset :: "fl option"
  x_coordname :: "string option"
  x_unit :: "string option"
  x_vec :: "arr1 option"
  y_coordname :: "string option"
  y_unit :: "string option"
  y_vec :: "arr1 option"

text \<open>The object as \<open>__init__\<close> leaves it: every attribute is \<open>None\<close>.\<close>

definition init :: "string \<Rightarrow> ivc" where
  "init mo = \<lparr> uuid = None, path = None, mo_json = mo, m_type = None, scan_dim = None,
     sweeptype = None, sweeps = None, bias = None, I = None, V = None, V_corr = None,
     dVdI = None, I_offsets = None, V_offsets = None, I_offset = None, V_offset = None,
     x_coordname = None, x_unit = None, x_vec = None,
     y_coordname = None, y_unit = None, y_vec = None \<rparr>"

section \<open>Sweep geometry: \<open>get_sweeptype\<close>\<close>

text \<open>
  \<open>all(np.array(a)[[1, 0, 2]] == np.array(b)[:3])\<close>: the first sweep read as
  (stop, start, step) against the second read as (start, stop, step), component by
  component with the float comparison.
\<close>

fun reversed_pair :: "sweep \<Rightarrow> sweep \<Rightarrow> bool" where
  "reversed_pair (a0, a1, a2) (b0, b1, b2) = (fl_eq a1 b0 \<and> fl_eq a0 b1 \<and> fl_eq a2 b2)"

text \<open>
  The method assigns \<open>self.sweeptype\<close> in three places only: in the two inner \<open>if\<close>s, when
  the relation holds, and in the final \<open>else\<close>, for a count other than 2 and 4. It returns
  the attribute. \<open>len(None)\<close> raises when no sweeps are given and none are stored.
\<close>

definition get_sweeptype :: "ivc \<Rightarrow> sweep list option \<Rightarrow> error + (nat option \<times> ivc)" where
  "get_sweeptype self sweeps_arg =
     (case (case sweeps_arg of None \<Rightarrow> sweeps self | Some sw \<Rightarrow> Some sw) of
        None \<Rightarrow> Inl TypeError
      | Some sw \<Rightarrow>
          let self' =
            (if length sw = 2 then
               (if reversed_pair (sw ! 0) (sw ! 1) then self\<lparr>sweeptype := Some 0\<rparr> else self)
             else if length sw = 4 then
               (if reversed_pair (sw ! 0) (sw ! 1) \<and> reversed_pair (sw ! 2) (sw ! 3)
                then self\<lparr>sweeptype := Some 1\<rparr> else self)
             else self\<lparr>sweeptype := None\<rparr>)
          in Inr (sweeptype self', self'))"

lemma get_sweeptype_fresh:
  "sweeptype self = None \<Longrightarrow>
   get_sweeptype self (Some sw) = Inr (r, self') \<Longrightarrow>
   r = (if length sw = 2 \<and> reversed_pair (sw ! 0) (sw ! 1) then Some 0
        else if length sw = 4 \<and> reversed_pair (sw ! 0) (sw ! 1) \<and> reversed_pair (sw ! 2) (sw ! 3)
        then Some 1 else None)"
  by (auto simp: get_sweeptype_def Let_def split: if_splits)

text \<open>
  Claim C2. The claim: two sweeps are half-swing (0) exactly when the reversed-pair
  relation holds, four sweeps are 4-quadrant (1) exactly when it holds for both pairs, and
  every other count or mismatch gives custom (\<open>None\<close>); in particular two sweeps that fail
  the relation are custom. The code: for two sweeps that fail the relation (and for four
  sweeps that fail it) no branch assigns the attribute, so the method returns whatever
  \<open>self.sweeptype\<close> held before the call, and leaves the object unchanged.
\<close>

theorem get_sweeptype_mismatch_keeps_stored:
  assumes "length sw = 2 \<and> \<not> reversed_pair (sw ! 0) (sw ! 1)
         \<or> length sw = 4 \<and> \<not> (reversed_pair (sw ! 0) (sw ! 1) \<and> reversed_pair (sw ! 2) (sw ! 3))"
  shows "get_sweeptype self (Some sw) = Inr (sweeptype self, self)"
  using assms by (auto simp: get_sweeptype_def)

theorem get_sweeptype_mismatch_keeps_stored_witness:
  "get_sweeptype ((init ''mo'')\<lparr>sweeptype := Some 0\<rparr>)
     (Some [(Fin 0, Fin 1, Fin 0.1), (Fin 0, Fin 1, Fin 0.1)])
   = Inr (Some 0, (init ''mo'')\<lparr>sweeptype := Some 0\<rparr>)"
  using get_sweeptype_mismatch_keeps_stored
    [of "[(Fin 0, Fin 1, Fin 0.1), (Fin 0, Fin 1, Fin 0.1)]" "(init ''mo'')\<lparr>sweeptype := Some 0\<rparr>"]
  by simp

section \<open>Numerical differentiation: \<open>get_dydx\<close>\<close>

text \<open>Sequencing of computations that may raise: the first exception ends the run.\<close>

definition bind_err :: "error + 'a \<Rightarrow> ('a \<Rightarrow> error + 'b) \<Rightarrow> error + 'b" where
  "bind_err m f = (case m of Inl e \<Rightarrow> Inl e | Inr v \<Rightarrow> f v)"

lemma bind_err_simps [simp]:
  "bind_err (Inl e) f = Inl e" "bind_err (Inr v) f = f v"
  by (simp_all add: bind_err_def)

lemma bind_err_assoc: "bind_err (bind_err m f) g = bind_err m (\<lambda>v. bind_err (f v) g)"
  by (cases m) simp_all

lemma bind_err_InrE:
  assumes "bind_err m f = Inr r"
  obtains v where "m = Inr v" and "f v = Inr r"
  using assms by (cases m) simp_all

text \<open>Float division as numpy does it: a division by zero gives an infinity or NaN.\<close>

fun fl_div :: "fl \<Rightarrow> fl \<Rightarrow> fl" where
  "fl_div NaN _ = NaN"
| "fl_div _ NaN = NaN"
| "fl_div (Fin a) (Fin b) =
     (if b = 0 then (if a = 0 then NaN else if 0 < a then PInf else MInf) else Fin (a / b))"
| "fl_div (Fin a) _ = Fin 0"
| "fl_div PInf (Fin b) = (if 0 \<le> b then PInf else MInf)"
| "fl_div MInf (Fin b) = (if 0 \<le> b then MInf else PInf)"
| "fl_div _ _ = NaN"

text \<open>\<open>a / b\<close> on two 1-D arrays: equal lengths, or one of them of length 1 is broadcast.\<close>

definition np_divide :: "arr1 \<Rightarrow> arr1 \<Rightarrow> error + arr1" where
  "np_divide a b =
     (if length a = length b then Inr (map2 fl_div a b)
      else if length a = 1 then Inr (map (fl_div (hd a)) b)
      else if length b = 1 then Inr (map (\<lambda>v. fl_div v (hd b)) a)
      else Inl ValueError)"

text \<open>\<open>a[mask]\<close> with a boolean mask as long as the array.\<close>

definition bool_index :: "'a list \<Rightarrow> bool list \<Rightarrow> 'a list" where
  "bool_index a msk = map fst (filter snd (zip a msk))"

text \<open>
  The strategy \<open>mode\<close> is a callable of the caller's: it takes the array and the keyword
  arguments, and it may raise. The method compares it with two library functions to fill
  in default keyword arguments, so the model also takes which function it is.
\<close>

datatype mode_id = Savgol_filter | Gradient | Other_mode

type_synonym kwargs = "string \<rightharpoonup> int option"
type_synonym strategy = "kwargs \<Rightarrow> arr1 \<Rightarrow> error + arr1"

definition default_kwargs :: "ivc \<Rightarrow> mode_id \<Rightarrow> kwargs \<Rightarrow> kwargs" where
  "default_kwargs self mid kw =
     (case mid of
        Savgol_filter \<Rightarrow>
          (let kw1 = (if ''window_length'' \<in> dom kw then kw else kw(''window_length'' \<mapsto> Some 15));
               kw2 = (if ''polyorder'' \<in> dom kw1 then kw1 else kw1(''polyorder'' \<mapsto> Some 3))
           in if ''deriv'' \<in> dom kw2 then kw2 else kw2(''deriv'' \<mapsto> Some 1))
      | Gradient \<Rightarrow>
          (if ''axis'' \<in> dom kw then kw else kw(''axis'' \<mapsto> map_option int (scan_dim self)))
      | Other_mode \<Rightarrow> kw)"

text \<open>
  The first statement of both \<open>except\<close> blocks is
  \<open>print('{:s}\n slice np.nans ...'.format(e))\<close> with \<open>e\<close> the exception caught. An
  exception has no \<open>__format__\<close> of its own, and \<open>object.__format__\<close> raises TypeError
  for every format specification that is not empty, \<open>s\<close> included.
\<close>

definition format_s :: "error \<Rightarrow> error + string" where
  "format_s e = Inl TypeError"

text \<open>What the \<open>except\<close> blocks compute after the \<open>print\<close>, for one array.\<close>

definition strip_nans :: "strategy \<Rightarrow> kwargs \<Rightarrow> arr1 \<Rightarrow> error + arr1" where
  "strip_nans mode kw y =
     (let y_nans = map isnan y
      in bind_err (mode kw (bool_index y (map Not y_nans)))
           (\<lambda>d. Inr (d @ bool_index y y_nans)))"

definition get_dydx ::
  "ivc \<Rightarrow> arr1 \<Rightarrow> arr1 option \<Rightarrow> mode_id \<Rightarrow> strategy \<Rightarrow> kwargs \<Rightarrow> error + arr1" where
  "get_dydx self y x mid mode kwargs0 =
     (let kw = default_kwargs self mid kwargs0 in
      case x of
        None \<Rightarrow>
          (case mode kw y of
             Inr r \<Rightarrow> Inr r
           | Inl e \<Rightarrow>
               bind_err (format_s e) (\<lambda>_. strip_nans mode kw y))
      | Some x \<Rightarrow>
          (case bind_err (mode kw y) (\<lambda>dy. bind_err (mode kw x) (\<lambda>dx. np_divide dy dx)) of
             Inr r \<Rightarrow> Inr r
           | Inl e \<Rightarrow>
               bind_err (format_s e) (\<lambda>_.
                 bind_err (strip_nans mode kw y) (\<lambda>ny.
                 bind_err (strip_nans mode kw x) (\<lambda>nx. np_divide ny nx)))))"

text \<open>
  Claim C4. The claim: when the strategy fails on \<open>[f(0), ..., f(n-1), NaN, NaN]\<close>,
  \<open>get_dydx\<close> strips the NaN tail, differentiates the prefix and appends the NaNs again.
  The code: whenever the strategy raises, the handler raises TypeError in its first
  statement, before it strips anything; no array is returned.
\<close>

theorem get_dydx_strategy_failure_raises:
  assumes "mode (default_kwargs self mid kw) y = Inl e"
  shows "get_dydx self y None mid mode kw = Inl TypeError"
  using assms by (simp add: get_dydx_def bind_err_def format_s_def)

theorem get_dydx_strategy_failure_raises_witness:
  "get_dydx (init ''mo'') [Fin 1, Fin 2, NaN, NaN] None Other_mode
     (\<lambda>kw ys. if list_ex isnan ys then Inl ValueError else Inr ys) Map.empty
   = Inl TypeError"
  using get_dydx_strategy_failure_raises
    [of "\<lambda>kw ys. if list_ex isnan ys then Inl ValueError else Inr ys"
        "init ''mo''" Other_mode Map.empty "[Fin 1, Fin 2, NaN, NaN]" ValueError]
  by (simp add: default_kwargs_def)

section \<open>Result emission: \<open>save\<close>\<close>

text \<open>The values of the dictionary handed to \<open>json.dump\<close>.\<close>

datatype jval =
    JNone | JStr string | JNat nat | JFloat fl | JArr1 arr1 | JArr2 arr2 | JSweeps "sweep list"

type_synonym document = "string \<rightharpoonup> jval"

definition opt_j :: "('a \<Rightarrow> jval) \<Rightarrow> 'a option \<Rightarrow> jval" where
  "opt_j f v = (case v of None \<Rightarrow> JNone | Some a \<Rightarrow> f a)"

text \<open>
  \<open>bool(a)\<close> of a numpy array, as \<open>if self.V_corr:\<close> asks for it: an array of more than one
  element has no truth value and raises ValueError; an array of one element has the truth
  value of the element (zero is false, NaN is true); an empty array is false.
\<close>

fun fl_truth :: "fl \<Rightarrow> bool" where
  "fl_truth (Fin a) = (a \<noteq> 0)"
| "fl_truth _ = True"

definition array_truth :: "arr2 \<Rightarrow> error + bool" where
  "array_truth a =
     (case concat a of
        [] \<Rightarrow> Inr False
      | [v] \<Rightarrow> Inr (fl_truth v)
      | _ \<Rightarrow> Inl ValueError)"

definition py_truth :: "arr2 option \<Rightarrow> error + bool" where
  "py_truth v = (case v of None \<Rightarrow> Inr False | Some a \<Rightarrow> array_truth a)"

text \<open>\<open>sub in s\<close> on strings.\<close>

fun starts_with :: "string \<Rightarrow> string \<Rightarrow> bool" where
  "starts_with _ [] = True"
| "starts_with [] (c # cs) = False"
| "starts_with (d # ds) (c # cs) = (d = c \<and> starts_with ds cs)"

fun contains :: "string \<Rightarrow> string \<Rightarrow> bool" where
  "contains [] sub = (sub = [])"
| "contains (d # ds) sub = (starts_with (d # ds) sub \<or> contains ds sub)"

definition class_variables :: "ivc \<Rightarrow> document" where
  "class_variables self = Map.empty
     (''uuid'' \<mapsto> opt_j JStr (uuid self),
      ''path'' \<mapsto> opt_j JStr (path self),
      ''measurement_object'' \<mapsto> JStr (mo_json self),
      ''measurement_type'' \<mapsto> opt_j JStr (m_type self),
      ''scan_dimension'' \<mapsto> opt_j JNat (scan_dim self),
      ''sweep_type'' \<mapsto> opt_j JNat (sweeptype self),
      ''sweeps'' \<mapsto> opt_j JSweeps (sweeps self),
      ''bias'' \<mapsto> opt_j JNat (bias self),
      ''I'' \<mapsto> opt_j JArr2 (I self),
      ''V'' \<mapsto> opt_j JArr2 (V self),
      ''dVdI'' \<mapsto> opt_j JArr2 (dVdI self),
      ''I_offsets'' \<mapsto> opt_j JFloat (I_offsets self),
      ''V_offsets'' \<mapsto> opt_j JFloat (V_offsets self),
      ''I_offset'' \<mapsto> opt_j JFloat (I_offset self),
      ''V_offset'' \<mapsto> opt_j JFloat (V_offset self),
      ''x_coordname'' \<mapsto> opt_j JStr (x_coordname self),
      ''x_unit'' \<mapsto> opt_j JStr (x_unit self),
      ''x_vector'' \<mapsto> opt_j JArr1 (x_vec self),
      ''y_coordname'' \<mapsto> opt_j JStr (y_coordname self),
      ''y_unit'' \<mapsto> opt_j JStr (y_unit self),
      ''y_vector'' \<mapsto> opt_j JArr1 (y_vec self))"

text \<open>
  \<open>save\<close> returns the name of the file it opens and the dictionary it dumps there; the
  caller's \<open>params\<close> (\<open>None\<close> is the empty dictionary) override the class variables. Opening
  and writing the file are the operating system's and the encoder's part.
\<close>

definition save :: "ivc \<Rightarrow> string \<Rightarrow> document option \<Rightarrow> error + (string \<times> document)" where
  "save self filename params =
     (let params1 = (case params of None \<Rightarrow> Map.empty | Some p \<Rightarrow> p);
          params2 = class_variables self ++ params1
      in bind_err (py_truth (V_corr self)) (\<lambda>t.
           let params3 = (if t then params2(''V_corr'' \<mapsto> opt_j JArr2 (V_corr self)) else params2);
               filename' = (if \<not> contains filename ''.json'' then filename @ ''.json'' else filename)
           in Inr (filename', params3)))"

lemma class_variables_no_V_corr: "class_variables self ''V_corr'' = None"
  by (simp add: class_variables_def)

lemma save_without_correction:
  assumes "V_corr self = None"
  shows "\<exists>fn doc. save self filename params = Inr (fn, doc)
           \<and> doc ''V_corr'' = (case params of None \<Rightarrow> None | Some p \<Rightarrow> p ''V_corr'')"
  using assms
  by (auto simp: save_def py_truth_def bind_err_def Let_def map_add_def
        class_variables_no_V_corr split: option.splits)

text \<open>
  Claim C6. The claim: once the ohmic slope correction has run, so that \<open>V_corr\<close> is a
  computed array, \<open>save\<close> completes and the document holds \<open>V_corr\<close>. The code: the test
  \<open>if self.V_corr:\<close> asks for the truth value of the array, and an array of two or more
  elements has none, so \<open>save\<close> raises ValueError before it opens the file.
\<close>

theorem save_with_V_corr_raises:
  assumes "V_corr self = Some a" and "2 \<le> length (concat a)"
  shows "save self filename params = Inl ValueError"
proof -
  obtain v w rest where "concat a = v # w # rest"
    using assms(2) by (cases "concat a"; cases "tl (concat a)") auto
  then show ?thesis
    using assms(1) by (simp add: save_def py_truth_def array_truth_def bind_err_def)
qed

theorem save_with_V_corr_raises_witness:
  "save ((init ''mo'')\<lparr>V_corr := Some [[Fin 0, Fin 1, Fin 2], [Fin 2, Fin 1, Fin 0]]\<rparr>)
     ''out'' None = Inl ValueError"
  using save_with_V_corr_raises
    [of "(init ''mo'')\<lparr>V_corr := Some [[Fin 0, Fin 1, Fin 2], [Fin 2, Fin 1, Fin 0]]\<rparr>"
        "[[Fin 0, Fin 1, Fin 2], [Fin 2, Fin 1, Fin 0]]" "''out''" None]
  by simp

section \<open>Float arithmetic, masks and reductions\<close>

fun fl_neg :: "fl \<Rightarrow> fl" where
  "fl_neg (Fin a) = Fin (- a)"
| "fl_neg PInf = MInf"
| "fl_neg MInf = PInf"
| "fl_neg NaN = NaN"

fun fl_add :: "fl \<Rightarrow> fl \<Rightarrow> fl" where
  "fl_add NaN _ = NaN"
| "fl_add _ NaN = NaN"
| "fl_add (Fin a) (Fin b) = Fin (a + b)"
| "fl_add PInf MInf = NaN"
| "fl_add MInf PInf = NaN"
| "fl_add PInf _ = PInf"
| "fl_add MInf _ = MInf"
| "fl_add (Fin a) b = b"

definition fl_sub :: "fl \<Rightarrow> fl \<Rightarrow> fl" where
  "fl_sub a b = fl_add a (fl_neg b)"

fun fl_mul :: "fl \<Rightarrow> fl \<Rightarrow> fl" where
  "fl_mul NaN _ = NaN"
| "fl_mul _ NaN = NaN"
| "fl_mul (Fin a) (Fin b) = Fin (a * b)"
| "fl_mul (Fin a) PInf = (if a = 0 then NaN else if 0 < a then PInf else MInf)"
| "fl_mul (Fin a) MInf = (if a = 0 then NaN else if 0 < a then MInf else PInf)"
| "fl_mul PInf (Fin b) = (if b = 0 then NaN else if 0 < b then PInf else MInf)"
| "fl_mul MInf (Fin b) = (if b = 0 then NaN else if 0 < b then MInf else PInf)"
| "fl_mul PInf PInf = PInf"
| "fl_mul MInf MInf = PInf"
| "fl_mul _ _ = MInf"

text \<open>\<open>a <= b\<close> on floats: false as soon as one side is NaN.\<close>

fun fl_le :: "fl \<Rightarrow> fl \<Rightarrow> bool" where
  "fl_le NaN _ = False"
| "fl_le _ NaN = False"
| "fl_le (Fin a) (Fin b) = (a \<le> b)"
| "fl_le MInf _ = True"
| "fl_le _ PInf = True"
| "fl_le _ _ = False"

text \<open>
  The window test of the offset and threshold methods, for one sample:
  \<open>x >= -threshold + offset\<close> and \<open>x <= threshold + offset\<close>.
\<close>

definition in_window :: "fl \<Rightarrow> fl \<Rightarrow> fl \<Rightarrow> bool" where
  "in_window threshold offset x =
     (fl_le (fl_add (fl_neg threshold) offset) x \<and> fl_le x (fl_add threshold offset))"

text \<open>
  \<open>np.place(a, msk, np.nan)\<close>: the mask and the array must have the same number of
  elements, whatever their shapes; then every element under a true mask entry, in
  row-major order, becomes NaN.
\<close>

definition np_place1 :: "arr1 \<Rightarrow> bool list \<Rightarrow> error + arr1" where
  "np_place1 a msk =
     (if length a \<noteq> length msk then Inl ValueError
      else Inr (map2 (\<lambda>v m. if m then NaN else v) a msk))"

fun unflatten :: "nat list \<Rightarrow> 'a list \<Rightarrow> 'a list list" where
  "unflatten [] xs = []"
| "unflatten (n # ns) xs = take n xs # unflatten ns (drop n xs)"

definition np_place2 :: "arr2 \<Rightarrow> bool list \<Rightarrow> error + arr2" where
  "np_place2 a msk =
     bind_err (np_place1 (concat a) msk) (\<lambda>flat. Inr (unflatten (map length a) flat))"

text \<open>
  \<open>np.nanmin\<close> and \<open>np.nanmax\<close> of a 1-D array: an empty array raises ValueError, an
  array of NaNs only gives NaN (with a warning), otherwise the NaNs are ignored.
\<close>

definition fl_min :: "fl \<Rightarrow> fl \<Rightarrow> fl" where
  "fl_min a b = (if fl_le a b then a else b)"

definition fl_max :: "fl \<Rightarrow> fl \<Rightarrow> fl" where
  "fl_max a b = (if fl_le a b then b else a)"

definition nan_reduce :: "(fl \<Rightarrow> fl \<Rightarrow> fl) \<Rightarrow> arr1 \<Rightarrow> error + fl" where
  "nan_reduce f a =
     (if a = [] then Inl ValueError
      else (case filter (\<lambda>v. \<not> isnan v) a of
              [] \<Rightarrow> Inr NaN
            | v # vs \<Rightarrow> Inr (foldl f v vs)))"

definition nanmin :: "arr1 \<Rightarrow> error + fl" where
  "nanmin = nan_reduce fl_min"

definition nanmax :: "arr1 \<Rightarrow> error + fl" where
  "nanmax = nan_reduce fl_max"

text \<open>\<open>a[k]\<close> for a row index that is not negative.\<close>

definition row :: "'a list \<Rightarrow> nat \<Rightarrow> error + 'a" where
  "row a k = (if k < length a then Inr (a ! k) else Inl IndexError)"

text \<open>
  \<open>axis=(self.scan_dim-1)\<close> for a reduction of one row, which has a single axis: the
  subtraction raises TypeError when \<open>scan_dim\<close> is \<open>None\<close>, and numpy accepts the axes 0 and
  -1 only.
\<close>

definition row_axis :: "nat option \<Rightarrow> error + unit" where
  "row_axis d =
     (case d of
        None \<Rightarrow> Inl TypeError
      | Some n \<Rightarrow> if n \<le> 1 then Inr () else Inl AxisError)"

text \<open>\<open>f(a[k], axis=(self.scan_dim-1))\<close>: the row is read before the axis is computed.\<close>

definition reduce_row ::
  "nat option \<Rightarrow> (arr1 \<Rightarrow> error + fl) \<Rightarrow> arr2 \<Rightarrow> nat \<Rightarrow> error + fl" where
  "reduce_row d f a k =
     bind_err (row a k) (\<lambda>r. bind_err (row_axis d) (\<lambda>_. f r))"

text \<open>The two extrema \<open>np.array([f(a[j]), g(a[k])])\<close>, evaluated left to right.\<close>

definition extrema ::
  "nat option \<Rightarrow> arr2 \<Rightarrow> (arr1 \<Rightarrow> error + fl) \<Rightarrow> nat \<Rightarrow> (arr1 \<Rightarrow> error + fl) \<Rightarrow> nat
     \<Rightarrow> error + fl list" where
  "extrema d a f j g k =
     bind_err (reduce_row d f a j) (\<lambda>u. bind_err (reduce_row d g a k) (\<lambda>w. Inr [u, w]))"

text \<open>
  \<open>np.mean\<close> and \<open>np.nanmean\<close> of a 1-D array: the sum over the count. Neither raises; an
  empty array, or one of NaNs only for \<open>nanmean\<close>, gives NaN with a warning.
\<close>

definition np_mean :: "arr1 \<Rightarrow> fl" where
  "np_mean a = (if a = [] then NaN else fl_div (foldl fl_add (Fin 0) a) (Fin (real (length a))))"

definition nanmean :: "arr1 \<Rightarrow> fl" where
  "nanmean a = np_mean (filter (\<lambda>v. \<not> isnan v) a)"

text \<open>The columns of an array of two axes (its rows have one length).\<close>

definition columns :: "arr2 \<Rightarrow> arr2" where
  "columns a = (case a of [] \<Rightarrow> [] | r # _ \<Rightarrow> map (\<lambda>k. map (\<lambda>q. q ! k) a) [0..<length r])"

section \<open>Critical currents by threshold: \<open>get_Ic_threshold\<close>\<close>

text \<open>
  An array argument of the caller's has one axis (a single trace) or two (the traces of a
  scan of dimension 1).
\<close>

datatype nparg = Arr1 arr1 | Arr2 arr2






section \<open>Offsets: \<open>get_offsets\<close> and \<open>get_offset\<close>\<close>

text \<open>
  \<open>[self.V, self.I][self.bias]\<close> and \<open>[self.I, self.V][self.bias]\<close>, the defaults of \<open>x\<close> and
  \<open>y\<close>: a list of two entries indexed by the bias.
\<close>

definition by_bias :: "nat option \<Rightarrow> 'a \<Rightarrow> 'a \<Rightarrow> error + 'a" where
  "by_bias b u w =
     (case b of
        None \<Rightarrow> Inl TypeError
      | Some n \<Rightarrow> if n = 0 then Inr u else if n = 1 then Inr w else Inl IndexError)"

text \<open>
  \<open>[x_offsets, y_offsets][::int(np.sign(self.bias - .5))]\<close>: the pair as it is for a
  positive step, reversed for the step -1 of bias 0; the subtraction raises TypeError for
  \<open>None\<close>.
\<close>

definition forward_or_reversed :: "nat option \<Rightarrow> fl \<Rightarrow> fl \<Rightarrow> error + (fl \<times> fl)" where
  "forward_or_reversed b x_offsets y_offsets =
     (case b of
        None \<Rightarrow> Inl TypeError
      | Some n \<Rightarrow> Inr (if n = 0 then (y_offsets, x_offsets) else (x_offsets, y_offsets)))"

text \<open>
  \<open>np.mean(np.nanmean(x_const, axis=self.scan_dim), axis=0)\<close> for an array of two axes:
  the means of the rows for axis 1, of the columns for axis 0; any other axis, and the mean
  along axis 0 of the single number that \<open>axis=None\<close> gives, are out of bounds.
\<close>

definition mean_of_nanmeans :: "nat option \<Rightarrow> arr2 \<Rightarrow> error + fl" where
  "mean_of_nanmeans d a =
     (case d of
        None \<Rightarrow> Inl AxisError
      | Some n \<Rightarrow>
          if n = 0 then Inr (np_mean (map nanmean (columns a)))
          else if n = 1 then Inr (np_mean (map nanmean a))
          else Inl AxisError)"

text \<open>
  The body of \<open>get_offsets\<close> from the mask to \<open>x_offsets\<close> and \<open>y_offsets\<close>, for the
  sweep type \<open>st\<close> and the scan dimension \<open>d\<close> of the object. It works on copies: \<open>x_const\<close>
  and \<open>y_const\<close> are \<open>np.copy\<close> of \<open>x\<close> and \<open>y\<close>, and \<open>np.place\<close> writes the NaNs into the
  copies. An \<open>x\<close> that is \<open>None\<close> cannot be compared with a float; \<open>np.copy\<close> of a \<open>y\<close>
  that is \<open>None\<close> is an array of one element and no axis, which cannot be indexed.
\<close>

definition offsets_of_window ::
  "nat option \<Rightarrow> nat option \<Rightarrow> arr2 option \<Rightarrow> arr2 option \<Rightarrow> fl \<Rightarrow> fl \<Rightarrow> bool
     \<Rightarrow> error + (fl \<times> fl)" where
  "offsets_of_window st d x y threshold offset yr =
     (case x of
        None \<Rightarrow> Inl TypeError
      | Some x \<Rightarrow>
          (let msk = concat (map (map (in_window threshold offset)) x)
           in bind_err (np_place2 x (map Not msk)) (\<lambda>x_const.
              bind_err (case y of
                          None \<Rightarrow> if length msk \<noteq> 1 then Inl ValueError else Inr None
                        | Some y \<Rightarrow> bind_err (np_place2 y (map Not msk)) (\<lambda>c. Inr (Some c)))
                (\<lambda>y_const.
              if st = Some 0 \<or> st = Some 1 then
                bind_err (mean_of_nanmeans d x_const) (\<lambda>x_offsets.
                case y_const of
                  None \<Rightarrow> Inl IndexError
                | Some y_const \<Rightarrow>
                    bind_err
                      (if st = Some 0 then
                         (if yr then extrema d y_const nanmax 0 nanmin 1
                          else extrema d y_const nanmin 0 nanmax 1)
                       else
                         (if yr then extrema d y_const nanmax 1 nanmin 3
                          else extrema d y_const nanmax 0 nanmin 2))
                      (\<lambda>y_ext. Inr (x_offsets, np_mean y_ext)))
              else Inl NotImplementedError))))"

text \<open>
  \<open>get_offsets\<close> reads \<open>bias\<close>, \<open>sweeptype\<close> and \<open>scan_dim\<close> of the object, and \<open>V\<close> and
  \<open>I\<close> for the arguments that are omitted; its last statement assigns \<open>I_offsets\<close> and
  \<open>V_offsets\<close>.
\<close>

definition get_offsets ::
  "ivc \<Rightarrow> arr2 option \<Rightarrow> arr2 option \<Rightarrow> fl \<Rightarrow> fl \<Rightarrow> bool \<Rightarrow> error + ((fl \<times> fl) \<times> ivc)" where
  "get_offsets self x_arg y_arg threshold offset yr =
     bind_err (case x_arg of None \<Rightarrow> by_bias (bias self) (V self) (I self) | Some a \<Rightarrow> Inr (Some a))
       (\<lambda>x.
     bind_err (case y_arg of None \<Rightarrow> by_bias (bias self) (I self) (V self) | Some a \<Rightarrow> Inr (Some a))
       (\<lambda>y.
     bind_err (offsets_of_window (sweeptype self) (scan_dim self) x y threshold offset yr)
       (\<lambda>xy.
     bind_err (forward_or_reversed (bias self) (fst xy) (snd xy))
       (\<lambda>iv. Inr (iv, self\<lparr>I_offsets := Some (fst iv), V_offsets := Some (snd iv)\<rparr>)))))"

text \<open>
  \<open>get_offset\<close> takes \<open>np.nanmean\<close> of each of the two offsets, which for a single number
  is the number itself, and assigns \<open>I_offset\<close> and \<open>V_offset\<close>.
\<close>

definition get_offset ::
  "ivc \<Rightarrow> arr2 option \<Rightarrow> arr2 option \<Rightarrow> fl \<Rightarrow> fl \<Rightarrow> bool \<Rightarrow> error + ((fl \<times> fl) \<times> ivc)" where
  "get_offset self x_arg y_arg threshold offset yr =
     bind_err (get_offsets self x_arg y_arg threshold offset yr) (\<lambda>r.
       let io = nanmean [fst (fst r)]; vo = nanmean [snd (fst r)]
       in Inr ((io, vo), (snd r)\<lparr>I_offset := Some io, V_offset := Some vo\<rparr>))"

text \<open>
  A half-swing measurement of scan dimension 1 in current bias, two sweeps of five points:
  the voltage is flat around zero in the middle of each sweep.
\<close>

definition halfswing_example :: ivc where
  "halfswing_example = (init ''mo'')\<lparr>scan_dim := Some 1, sweeptype := Some 0, bias := Some 0,
     I := Some [[Fin (-2), Fin (-1), Fin 0, Fin 1, Fin 2], [Fin 2, Fin 1, Fin 0, Fin (-1), Fin (-2)]],
     V := Some [[Fin (-5), Fin 0, Fin 0, Fin 1, Fin 5], [Fin 5, Fin 0, Fin 0, Fin 0, Fin (-5)]]\<rparr>"

lemma offsets_upd_comm:
  "self\<lparr>I_offset := c, V_offset := d, I_offsets := p, V_offsets := q\<rparr>
   = self\<lparr>I_offsets := p, V_offsets := q, I_offset := c, V_offset := d\<rparr>"
  by simp

lemma get_offsets_fields:
  "get_offsets (self\<lparr>I_offsets := a, V_offsets := b, I_offset := c, V_offset := d\<rparr>) x y th off yr
   = bind_err (get_offsets self x y th off yr)
       (\<lambda>q. Inr (fst q, (snd q)\<lparr>I_offset := c, V_offset := d\<rparr>))"
  by (simp add: get_offsets_def bind_err_assoc offsets_upd_comm cong: option.case_cong)

lemma get_offsets_state:
  assumes "get_offsets self x y th off yr = Inr (r, self')"
  shows "self' = self\<lparr>I_offsets := Some (fst r), V_offsets := Some (snd r)\<rparr>"
  using assms unfolding get_offsets_def
  by (elim bind_err_InrE) auto

lemma get_offset_example:
  "get_offset halfswing_example None None (Fin 1) (Fin 0) False
   = Inr ((Fin 0, Fin (1 / 6)),
          halfswing_example\<lparr>I_offsets := Some (Fin 0), V_offsets := Some (Fin (1 / 6)),
            I_offset := Some (Fin 0), V_offset := Some (Fin (1 / 6))\<rparr>)"
  by (simp add: halfswing_example_def init_def get_offset_def get_offsets_def by_bias_def
      forward_or_reversed_def offsets_of_window_def mean_of_nanmeans_def in_window_def
      np_place2_def np_place1_def extrema_def reduce_row_def row_def row_axis_def
      nanmin_def nanmax_def nan_reduce_def fl_min_def fl_max_def np_mean_def nanmean_def
      Let_def)

text \<open>
  Claim C7. When the whole-dataset offset estimation \<open>get_offset\<close> returns, a second call
  with the same arguments on the object as the first call left it returns the same pair
  (I_offset, V_offset) and leaves the object as it is; the arrays \<open>I\<close> and \<open>V\<close> of the
  object, which are \<open>x\<close> and \<open>y\<close> when these are omitted, are the ones before the call.
\<close>

theorem get_offset_twice:
  assumes "get_offset self x y th off yr = Inr (r, self')"
  shows "get_offset self' x y th off yr = Inr (r, self') \<and> I self' = I self \<and> V self' = V self"
proof -
  from assms obtain iv s1 where q: "get_offsets self x y th off yr = Inr (iv, s1)"
    and r: "r = (nanmean [fst iv], nanmean [snd iv])"
    and s: "self' = s1\<lparr>I_offset := Some (fst r), V_offset := Some (snd r)\<rparr>"
    unfolding get_offset_def by (elim bind_err_InrE) (auto simp: Let_def)
  have s1: "s1 = self\<lparr>I_offsets := Some (fst iv), V_offsets := Some (snd iv)\<rparr>"
    using get_offsets_state [OF q] .
  have s2: "self' = self\<lparr>I_offsets := Some (fst iv), V_offsets := Some (snd iv),
      I_offset := Some (fst r), V_offset := Some (snd r)\<rparr>"
    by (simp add: s s1)
  have "get_offsets self' x y th off yr = Inr (iv, self')"
    by (simp add: s2 get_offsets_fields q s1)
  then have "get_offset self' x y th off yr = Inr (r, self')"
    by (simp add: get_offset_def Let_def r s2)
  moreover have "I self' = I self" "V self' = V self"
    by (simp_all add: s2)
  ultimately show ?thesis by simp
qed

theorem get_offset_twice_witness:
  "get_offset
     (halfswing_example\<lparr>I_offsets := Some (Fin 0), V_offsets := Some (Fin (1 / 6)),
        I_offset := Some (Fin 0), V_offset := Some (Fin (1 / 6))\<rparr>)
     None None (Fin 1) (Fin 0) False
   = Inr ((Fin 0, Fin (1 / 6)),
          halfswing_example\<lparr>I_offsets := Some (Fin 0), V_offsets := Some (Fin (1 / 6)),
            I_offset := Some (Fin 0), V_offset := Some (Fin (1 / 6))\<rparr>)"
  using get_offset_twice [OF get_offset_example] by simp

section \<open>Ohmic slope correction: \<open>get_2wire_slope_correction\<close>\<close>

text \<open>
  The peak finder is a callable of the caller's, by default \<open>scipy.signal.find_peaks\<close>:
  for one trace and the keyword arguments it returns the indices of the peaks and a
  dictionary of properties, each an array with one entry per peak, or it raises.
\<close>

datatype finder_id = Find_peaks | Find_peaks_cwt | Other_finder

datatype finder_arg = Number real | Arange nat

type_synonym finder_kwargs = "string \<rightharpoonup> finder_arg"
type_synonym properties = "string \<rightharpoonup> fl list"
type_synonym peak_finder = "finder_kwargs \<Rightarrow> arr1 \<Rightarrow> error + (nat list \<times> properties)"

text \<open>The default keyword arguments, with the default prominence of each method.\<close>

definition finder_defaults :: "real \<Rightarrow> finder_id \<Rightarrow> finder_kwargs \<Rightarrow> finder_kwargs" where
  "finder_defaults prominence fid kw =
     (let kw1 = (if fid = Find_peaks \<and> ''prominence'' \<notin> dom kw
                 then kw(''prominence'' \<mapsto> Number prominence) else kw)
      in if fid = Find_peaks_cwt \<and> ''widths'' \<notin> dom kw1
         then kw1(''widths'' \<mapsto> Arange 10) else kw1)"

text \<open>
  \<open>a.argsort()\<close>: the indices that sort the array, NaN last. The sort of a short array is
  an insertion sort; equal entries keep their order.
\<close>

definition sort_le :: "fl \<Rightarrow> fl \<Rightarrow> bool" where
  "sort_le a b = (if isnan b then True else if isnan a then False else fl_le a b)"

fun insert_sorted :: "fl \<times> nat \<Rightarrow> (fl \<times> nat) list \<Rightarrow> (fl \<times> nat) list" where
  "insert_sorted p [] = [p]"
| "insert_sorted p (q # qs) =
     (if sort_le (fst q) (fst p) then q # insert_sorted p qs else p # q # qs)"

definition argsort :: "fl list \<Rightarrow> nat list" where
  "argsort a = map snd (foldl (\<lambda>acc p. insert_sorted p acc) [] (zip a [0..<length a]))"

text \<open>\<open>a[ks]\<close> for an array of indices that are not negative.\<close>

fun take_indices :: "'a list \<Rightarrow> nat list \<Rightarrow> error + 'a list" where
  "take_indices a [] = Inr []"
| "take_indices a (k # ks) =
     bind_err (row a k) (\<lambda>v. bind_err (take_indices a ks) (\<lambda>vs. Inr (v # vs)))"

text \<open>
  \<open>slice(*bounds)\<close> and \<open>a[s]\<close>: without a bound \<open>slice\<close> raises TypeError, a single bound
  is the stop, two bounds are start and stop.
\<close>

datatype py_slice = Slice "nat option" nat

fun make_slice :: "nat list \<Rightarrow> error + py_slice" where
  "make_slice [] = Inl TypeError"
| "make_slice [b] = Inr (Slice None b)"
| "make_slice [a, b] = Inr (Slice (Some a) b)"
| "make_slice (a # b # c # ds) = Inr (Slice (Some a) b)"

fun apply_slice :: "'a list \<Rightarrow> py_slice \<Rightarrow> 'a list" where
  "apply_slice a (Slice None b) = take b a"
| "apply_slice a (Slice (Some k) b) = drop k (take b a)"

text \<open>
  The interval of one trace:
  \<open>slice(*np.sort(peaks1D[0][peaks1D[1]['prominences'].argsort()[-2:][::-1]]))\<close>, the indices
  of the two most prominent peaks in ascending order. At most two indices are selected, so
  the last equation of \<open>make_slice\<close> is never used.
\<close>

definition branch_slice :: "nat list \<times> properties \<Rightarrow> error + py_slice" where
  "branch_slice peaks1D =
     (case snd peaks1D ''prominences'' of
        None \<Rightarrow> Inl KeyError
      | Some prom \<Rightarrow>
          (let order = argsort prom;
               top = rev (drop (length order - 2) order)
           in bind_err (take_indices (fst peaks1D) top) (\<lambda>sel. make_slice (sort sel))))"

text \<open>
  \<open>lin_fit\<close> solves the least-squares problem for slope and intercept with
  \<open>np.linalg.qr\<close> and \<open>np.linalg.inv\<close>. In exact arithmetic: with fewer than two points the
  factor \<open>r\<close> is not square and \<open>inv\<close> raises; with two or more points of one and the same
  abscissa \<open>r\<close> is singular and \<open>inv\<close> raises; otherwise the solution is the regression
  line. A NaN or an infinity among the points makes both numbers NaN.
\<close>

fun the_real :: "fl \<Rightarrow> real option" where
  "the_real (Fin a) = Some a"
| "the_real _ = None"

definition lin_fit :: "arr1 \<Rightarrow> arr1 \<Rightarrow> error + (fl \<times> fl)" where
  "lin_fit x y =
     (if length y \<noteq> length x then Inl ValueError
      else if length x < 2 then Inl LinAlgError
      else if list_ex (\<lambda>v. the_real v = None) (x @ y) then Inr (NaN, NaN)
      else
        (let xs = map (\<lambda>v. case v of Fin a \<Rightarrow> a | _ \<Rightarrow> 0) x;
             ys = map (\<lambda>v. case v of Fin a \<Rightarrow> a | _ \<Rightarrow> 0) y;
             m = real (length xs);
             sx = sum_list xs; sy = sum_list ys;
             sxx = sum_list (map2 (*) xs xs); sxy = sum_list (map2 (*) xs ys);
             det = m * sxx - sx * sx
         in if det = 0 then Inl LinAlgError
            else (let slope = (m * sxy - sx * sy) / det
                  in Inr (Fin slope, Fin ((sy - slope * sx) / m)))))"

text \<open>An operation on two 1-D arrays, element by element, with numpy's broadcasting.\<close>

definition broadcast2 :: "(fl \<Rightarrow> fl \<Rightarrow> fl) \<Rightarrow> arr1 \<Rightarrow> arr1 \<Rightarrow> error + arr1" where
  "broadcast2 f a b =
     (if length a = length b then Inr (map2 f a b)
      else if length a = 1 then Inr (map (f (hd a)) b)
      else if length b = 1 then Inr (map (\<lambda>v. f v (hd b)) a)
      else Inl ValueError)"

text \<open>
  One trace through the four lazy \<open>map\<close>s of the branch \<open>self.scan_dim == 1\<close>: peaks,
  slice, fit, and \<open>V1D - (popt1D[0] * I1D + popt1D[1])\<close>.
\<close>

definition corrected_trace ::
  "peak_finder \<Rightarrow> finder_kwargs \<Rightarrow> arr1 \<Rightarrow> arr1 \<Rightarrow> arr1 \<Rightarrow> error + arr1" where
  "corrected_trace finder kw I1D V1D dVdI1D =
     bind_err (finder kw dVdI1D) (\<lambda>peaks1D.
     bind_err (branch_slice peaks1D) (\<lambda>s1D.
     bind_err (lin_fit (apply_slice I1D s1D) (apply_slice V1D s1D)) (\<lambda>popt1D.
       broadcast2 fl_sub V1D (map (\<lambda>i. fl_add (fl_mul (fst popt1D) i) (snd popt1D)) I1D))))"

text \<open>
  \<open>list(map(...))\<close> runs the traces in order and stops at the first exception; the \<open>map\<close>s
  end with the shortest of \<open>I\<close>, \<open>V\<close> and \<open>dVdI\<close>.
\<close>

fun corrected_traces ::
  "peak_finder \<Rightarrow> finder_kwargs \<Rightarrow> arr2 \<Rightarrow> arr2 \<Rightarrow> arr2 \<Rightarrow> error + arr2" where
  "corrected_traces finder kw (i # is) (v # vs) (d # ds) =
     bind_err (corrected_trace finder kw i v d) (\<lambda>c.
     bind_err (corrected_traces finder kw is vs ds) (\<lambda>cs. Inr (c # cs)))"
| "corrected_traces finder kw _ _ _ = Inr []"

text \<open>\<open>np.array(rows, dtype=float)\<close>: the rows must have one length.\<close>

definition np_array_rows :: "arr2 \<Rightarrow> error + arr2" where
  "np_array_rows rows =
     (if list_all (\<lambda>r. length r = length (hd rows)) rows then Inr rows else Inl ValueError)"

text \<open>
  The method for the arrays of a scan of dimension 1. It dispatches on \<open>self.scan_dim\<close>;
  \<open>map\<close> raises TypeError for an array that is \<open>None\<close>. In the branches for the scan
  dimensions 2 and 3 the inner \<open>map\<close>s are never run: each trace gives a \<open>map\<close> object,
  which \<open>np.array(..., dtype=float)\<close> cannot convert.
\<close>

definition get_2wire_slope_correction ::
  "ivc \<Rightarrow> arr2 option \<Rightarrow> arr2 option \<Rightarrow> arr2 option \<Rightarrow> finder_id \<Rightarrow> peak_finder
     \<Rightarrow> finder_kwargs \<Rightarrow> error + (arr2 \<times> ivc)" where
  "get_2wire_slope_correction self I_arg V_arg dVdI_arg fid finder kwargs =
     (let I' = (case I_arg of None \<Rightarrow> I self | Some a \<Rightarrow> Some a);
          V' = (case V_arg of None \<Rightarrow> V self | Some a \<Rightarrow> Some a);
          dVdI' = (case dVdI_arg of None \<Rightarrow> dVdI self | Some a \<Rightarrow> Some a);
          kw = finder_defaults 100 fid kwargs
      in if scan_dim self = Some 1 \<or> scan_dim self = Some 2 \<or> scan_dim self = Some 3 then
           (case (dVdI', I', V') of
              (Some d, Some i, Some v) \<Rightarrow>
                bind_err
                  (if scan_dim self = Some 1 then
                     bind_err (corrected_traces finder kw i v d) np_array_rows
                   else if min (length i) (min (length v) (length d)) = 0 then Inr []
                   else Inl TypeError)
                  (\<lambda>c. Inr (c, self\<lparr>V_corr := Some c\<rparr>))
            | _ \<Rightarrow> Inl TypeError)
         else Inl ValueError)"

text \<open>A peak finder that reports the same peaks, with their prominences, for every trace.\<close>

definition constant_finder :: "nat list \<Rightarrow> fl list \<Rightarrow> peak_finder" where
  "constant_finder ind prom = (\<lambda>kw d. Inr (ind, Map.empty(''prominences'' \<mapsto> prom)))"

lemma take_indices_Nil: "take_indices [] ks = Inr sel \<Longrightarrow> ks = [] \<and> sel = []"
  by (cases ks) (auto simp: row_def)

lemma branch_slice_no_peak: "\<exists>e. branch_slice ([], props) = Inl e"
proof (cases "props ''prominences''")
  case None
  then show ?thesis by (simp add: branch_slice_def)
next
  case (Some prom)
  let ?top = "rev (drop (length (argsort prom) - 2) (argsort prom))"
  show ?thesis
  proof (cases "take_indices ([]::nat list) ?top")
    case (Inl e)
    then show ?thesis using Some by (simp add: branch_slice_def Let_def)
  next
    case (Inr sel)
    then have "sel = []" using take_indices_Nil by blast
    then show ?thesis using Some Inr by (simp add: branch_slice_def Let_def)
  qed
qed

lemma branch_slice_no_peak_TypeError:
  "branch_slice ([], Map.empty(''prominences'' \<mapsto> [])) = Inl TypeError"
  by (simp add: branch_slice_def argsort_def)

lemma branch_slice_one_peak:
  "props ''prominences'' = Some [pr] \<Longrightarrow> branch_slice ([p], props) = Inr (Slice None p)"
  by (simp add: branch_slice_def argsort_def row_def)

lemma corrected_trace_no_peak:
  assumes "finder kw d = Inr ([], props)"
  shows "\<exists>e. corrected_trace finder kw i v d = Inl e"
  using assms branch_slice_no_peak [of props] by (auto simp: corrected_trace_def)

lemma corrected_traces_fail:
  assumes "k < length i" "k < length v" "k < length d"
    and "corrected_trace finder kw (i ! k) (v ! k) (d ! k) = Inl e0"
  shows "\<exists>e. corrected_traces finder kw i v d = Inl e"
  using assms
proof (induction finder kw i v d arbitrary: k rule: corrected_traces.induct)
  case (1 finder kw i "is" v vs d ds)
  show ?case
  proof (cases k)
    case 0
    then show ?thesis using "1.prems" by simp
  next
    case (Suc j)
    show ?thesis
    proof (cases "corrected_trace finder kw i v d")
      case (Inl e)
      then show ?thesis by simp
    next
      case (Inr c)
      have "\<exists>e. corrected_traces finder kw is vs ds = Inl e"
        using "1.IH" [of j] "1.prems" Suc by simp
      then show ?thesis using Inr by auto
    qed
  qed
qed simp_all

text \<open>
  Claim C3, as the code has it. The claim asks for an explicit error whenever the peak
  finder reports fewer than two peaks in a trace. The method has no check of the number of
  peaks. With no peak in one of the traces it raises: \<open>slice()\<close> without bounds is a
  TypeError (unless the properties lack the prominences or an earlier trace fails, which
  raise too). With exactly one peak, at index \<open>p\<close>, nothing raises for that: the slice is
  \<open>[:p]\<close> and the line is fitted to the samples before the peak.
\<close>

theorem get_2wire_fewer_than_two_peaks:
  "(scan_dim self = Some 1 \<and> k < length i \<and> k < length v \<and> k < length d
      \<and> finder (finder_defaults 100 fid kw) (d ! k) = Inr ([], props)
    \<longrightarrow> (\<exists>e. get_2wire_slope_correction self (Some i) (Some v) (Some d) fid finder kw = Inl e))
   \<and> (finder kw' td = Inr ([p], props') \<and> props' ''prominences'' = Some [pr]
    \<longrightarrow> corrected_trace finder kw' ti tv td
        = bind_err (lin_fit (take p ti) (take p tv)) (\<lambda>popt.
            broadcast2 fl_sub tv (map (\<lambda>c. fl_add (fl_mul (fst popt) c) (snd popt)) ti)))"
proof (intro conjI impI)
  assume a: "scan_dim self = Some 1 \<and> k < length i \<and> k < length v \<and> k < length d
      \<and> finder (finder_defaults 100 fid kw) (d ! k) = Inr ([], props)"
  then obtain e0 where
    "corrected_trace finder (finder_defaults 100 fid kw) (i ! k) (v ! k) (d ! k) = Inl e0"
    using corrected_trace_no_peak by blast
  then obtain e where "corrected_traces finder (finder_defaults 100 fid kw) i v d = Inl e"
    using corrected_traces_fail a by blast
  then show "\<exists>e. get_2wire_slope_correction self (Some i) (Some v) (Some d) fid finder kw = Inl e"
    using a by (simp add: get_2wire_slope_correction_def)
next
  assume "finder kw' td = Inr ([p], props') \<and> props' ''prominences'' = Some [pr]"
  then show "corrected_trace finder kw' ti tv td
        = bind_err (lin_fit (take p ti) (take p tv)) (\<lambda>popt.
            broadcast2 fl_sub tv (map (\<lambda>c. fl_add (fl_mul (fst popt) c) (snd popt)) ti))"
    by (simp add: corrected_trace_def branch_slice_one_peak)
qed

theorem get_2wire_fewer_than_two_peaks_witness:
  "(\<exists>e. get_2wire_slope_correction ((init ''mo'')\<lparr>scan_dim := Some 1\<rparr>)
          (Some [[Fin 0, Fin 1, Fin 2, Fin 3, Fin 4]]) (Some [[Fin 0, Fin 0, Fin 0, Fin 0, Fin 0]])
          (Some [[Fin 0, Fin 0, Fin 0, Fin 0, Fin 0]]) Other_finder (constant_finder [] [])
          Map.empty = Inl e)
   \<and> corrected_trace (constant_finder [3] [Fin 500]) Map.empty
        [Fin 0, Fin 1, Fin 2, Fin 3, Fin 4] [Fin 0, Fin 0, Fin 0, Fin 5, Fin 5]
        [Fin 0, Fin 0, Fin 0, Fin 500, Fin 0]
      = Inr [Fin 0, Fin 0, Fin 0, Fin 5, Fin 5]"
  using get_2wire_fewer_than_two_peaks
    [where self = "(init ''mo'')\<lparr>scan_dim := Some 1\<rparr>" and k = 0
       and i = "[[Fin 0, Fin 1, Fin 2, Fin 3, Fin 4]]" and v = "[[Fin 0, Fin 0, Fin 0, Fin 0, Fin 0]]"
       and d = "[[Fin 0, Fin 0, Fin 0, Fin 0, Fin 0]]" and fid = Other_finder
       and finder = "constant_finder [] []" and kw = Map.empty
       and props = "Map.empty(''prominences'' \<mapsto> [])",
     THEN conjunct1]
    get_2wire_fewer_than_two_peaks
    [where finder = "constant_finder [3] [Fin 500]" and kw' = Map.empty
       and td = "[Fin 0, Fin 0, Fin 0, Fin 500, Fin 0]" and p = 3
       and props' = "Map.empty(''prominences'' \<mapsto> [Fin 500])" and pr = "Fin 500"
       and ti = "[Fin 0, Fin 1, Fin 2, Fin 3, Fin 4]"
       and tv = "[Fin 0, Fin 0, Fin 0, Fin 5, Fin 5]",
     THEN conjunct2]
  by (simp add: constant_finder_def finder_defaults_def lin_fit_def broadcast2_def fl_sub_def)

theorem get_2wire_one_peak_counterexample:
  "get_2wire_slope_correction ((init ''mo'')\<lparr>scan_dim := Some 1\<rparr>)
     (Some [[Fin 0, Fin 1, Fin 2, Fin 3, Fin 4]]) (Some [[Fin 0, Fin 0, Fin 0, Fin 5, Fin 5]])
     (Some [[Fin 0, Fin 0, Fin 0, Fin 500, Fin 0]]) Other_finder
     (constant_finder [3] [Fin 500]) Map.empty
   = Inr ([[Fin 0, Fin 0, Fin 0, Fin 5, Fin 5]],
          (init ''mo'')\<lparr>scan_dim := Some 1, V_corr := Some [[Fin 0, Fin 0, Fin 0, Fin 5, Fin 5]]\<rparr>)"
  by (simp add: get_2wire_slope_correction_def finder_defaults_def corrected_trace_def
      constant_finder_def branch_slice_def argsort_def row_def lin_fit_def broadcast2_def
      fl_sub_def np_array_rows_def init_def Let_def)

section \<open>Jump detection in the derivative: \<open>get_Ic_deriv\<close> and \<open>_classify_jump\<close>\<close>

text \<open>
  The wrapper \<open>_peak_finder\<close> of \<open>get_Ic_deriv\<close> replaces an answer without peaks by
  \<open>[np.array([False]), {}]\<close>: from there on the index array of a trace holds integers or
  booleans.
\<close>

datatype index_array = Ints "nat list" | Bools "bool list"

definition wrap_finder ::
  "peak_finder \<Rightarrow> finder_kwargs \<Rightarrow> arr1 \<Rightarrow> error + (index_array \<times> properties)" where
  "wrap_finder finder kw x =
     bind_err (finder kw x) (\<lambda>ans.
       if fst ans = [] then Inr (Bools [False], Map.empty) else Inr (Ints (fst ans), snd ans))"

text \<open>A function that may raise, over a list: the first exception ends the run.\<close>

fun traverse :: "('a \<Rightarrow> error + 'b) \<Rightarrow> 'a list \<Rightarrow> error + 'b list" where
  "traverse f [] = Inr []"
| "traverse f (a # as) = bind_err (f a) (\<lambda>b. bind_err (traverse f as) (\<lambda>bs. Inr (b # bs)))"

text \<open>
  Arithmetic on an index array turns booleans into 0 and 1. \<open>a[j]\<close> for an integer \<open>j\<close>
  counts from the end when \<open>j\<close> is negative and raises IndexError outside the array.
\<close>

definition index_ints :: "index_array \<Rightarrow> int list" where
  "index_ints idx =
     (case idx of Ints ks \<Rightarrow> map int ks | Bools bs \<Rightarrow> map (\<lambda>b. if b then 1 else 0) bs)"

definition item :: "'a list \<Rightarrow> int \<Rightarrow> error + 'a" where
  "item a j =
     (if 0 \<le> j \<and> j < int (length a) then Inr (a ! nat j)
      else if j < 0 \<and> - int (length a) \<le> j then Inr (a ! nat (int (length a) + j))
      else Inl IndexError)"

text \<open>
  \<open>np.mean(V1D[peak1D[0] + dir * np.tile([np.arange(int(window)//2)+1], ...).T], axis=0)\<close>:
  for every peak the mean of the \<open>window // 2\<close> samples after it (\<open>dir = 1\<close>) or before it
  (\<open>dir = -1\<close>).
\<close>

definition window_means :: "arr1 \<Rightarrow> index_array \<Rightarrow> nat \<Rightarrow> int \<Rightarrow> error + fl list" where
  "window_means v idx window dir =
     traverse (\<lambda>p. bind_err (traverse (\<lambda>j. item v (p + dir * (int j + 1))) [0..<window div 2])
                       (\<lambda>samples. Inr (np_mean samples)))
       (index_ints idx)"

text \<open>
  The masks of one trace: a critical jump has the mean before it inside the band around
  the voltage offset and the mean after it outside; a retrapping jump the other way round.
\<close>

definition jump_mask ::
  "bool \<Rightarrow> fl \<Rightarrow> fl \<Rightarrow> nat \<Rightarrow> arr1 \<Rightarrow> index_array \<Rightarrow> error + bool list" where
  "jump_mask critical tol voff window v idx =
     bind_err (window_means v idx window (- 1)) (\<lambda>before.
     bind_err (window_means v idx window 1) (\<lambda>after.
       Inr (map2 (\<lambda>b a. if critical then in_window tol voff b \<and> \<not> in_window tol voff a
                         else \<not> in_window tol voff b \<and> in_window tol voff a) before after)))"

text \<open>\<open>idx[msk][0]\<close>: the first index under the mask, an integer or a boolean.\<close>

definition first_under :: "index_array \<Rightarrow> bool list \<Rightarrow> error + (nat + bool)" where
  "first_under idx msk =
     (case idx of
        Ints ks \<Rightarrow> (case bool_index ks msk of [] \<Rightarrow> Inl IndexError | k # _ \<Rightarrow> Inr (Inl k))
      | Bools bs \<Rightarrow> (case bool_index bs msk of [] \<Rightarrow> Inl IndexError | b # _ \<Rightarrow> Inr (Inr b)))"

text \<open>
  \<open>I1D[k]\<close> is a sample for an integer \<open>k\<close>; for a numpy boolean it is an array with a new
  first axis, of length 1 for \<open>True\<close> and 0 for \<open>False\<close>.
\<close>

datatype picked = Sample fl | Block bool arr1

datatype jump_currents = Currents "fl list" | Current_blocks "(bool \<times> arr1) list"

definition critical_current ::
  "fl \<Rightarrow> fl \<Rightarrow> nat \<Rightarrow> arr1 \<times> arr1 \<times> index_array \<Rightarrow> error + picked" where
  "critical_current tol voff window t =
     (case t of (i, v, idx) \<Rightarrow>
        bind_err (jump_mask True tol voff window v idx) (\<lambda>msk.
        bind_err (first_under idx msk) (\<lambda>k.
          case k of
            Inl n \<Rightarrow> bind_err (row i n) (\<lambda>c. Inr (Sample c))
          | Inr b \<Rightarrow> Inr (Block b i))))"

definition retrapping_current ::
  "fl \<Rightarrow> fl \<Rightarrow> nat \<Rightarrow> arr1 \<times> arr1 \<times> index_array \<Rightarrow> error + fl" where
  "retrapping_current tol voff window t =
     (case t of (i, v, idx) \<Rightarrow>
        bind_err (jump_mask False tol voff window v idx) (\<lambda>msk.
        bind_err (first_under idx msk) (\<lambda>k.
          row i (case k of Inl n \<Rightarrow> n + 1 | Inr b \<Rightarrow> (if b then 2 else 1)))))"

text \<open>
  \<open>np.array(rows, dtype=float)\<close> over what the traces gave: samples make an array of one
  axis, blocks of one shape an array of three axes, anything else raises ValueError.
\<close>

fun the_sample :: "picked \<Rightarrow> fl option" where
  "the_sample (Sample c) = Some c"
| "the_sample (Block b i) = None"

fun the_block :: "picked \<Rightarrow> (bool \<times> arr1) option" where
  "the_block (Sample c) = None"
| "the_block (Block b i) = Some (b, i)"

definition np_array_picked :: "picked list \<Rightarrow> error + jump_currents" where
  "np_array_picked rows =
     (if list_all (\<lambda>r. the_sample r \<noteq> None) rows then Inr (Currents (map (the \<circ> the_sample) rows))
      else if list_all (\<lambda>r. the_block r \<noteq> None
                 \<and> map_option (\<lambda>(b, i). (b, length i)) (the_block r)
                   = map_option (\<lambda>(b, i). (b, length i)) (the_block (hd rows))) rows
      then Inr (Current_blocks (map (the \<circ> the_block) rows))
      else Inl ValueError)"

text \<open>
  The property record of one trace: the properties of the peak finder, then the currents,
  voltages and values of \<open>Y\<close> at the peaks and the index array itself, under the keys
  \<open>I\<close>, \<open>V\<close>, the name of \<open>Y\<close> and \<open>index\<close>. Indexing with an array of booleans needs one
  boolean per sample.
\<close>

datatype prop_val = Values "fl list" | Indices index_array

type_synonym prop_record = "string \<rightharpoonup> prop_val"

definition fancy :: "arr1 \<Rightarrow> index_array \<Rightarrow> error + arr1" where
  "fancy a idx =
     (case idx of
        Ints ks \<Rightarrow> take_indices a ks
      | Bools bs \<Rightarrow> if length bs = length a then Inr (bool_index a bs) else Inl IndexError)"

definition property_record ::
  "string \<Rightarrow> (index_array \<times> properties) \<times> arr1 \<times> arr1 \<times> arr1 \<Rightarrow> error + prop_record" where
  "property_record Y_name t =
     (case t of ((idx, props), i, v, y) \<Rightarrow>
        bind_err (fancy i idx) (\<lambda>is.
        bind_err (fancy v idx) (\<lambda>vs.
        bind_err (fancy y idx) (\<lambda>ys.
          Inr ((map_option Values \<circ> props)
                 (''I'' \<mapsto> Values is, ''V'' \<mapsto> Values vs, Y_name \<mapsto> Values ys,
                  ''index'' \<mapsto> Indices idx))))))"

text \<open>For a custom sweep type an IndexError is caught and gives a record of NaNs.\<close>

definition property_record_custom ::
  "string \<Rightarrow> (index_array \<times> properties) \<times> arr1 \<times> arr1 \<times> arr1 \<Rightarrow> error + prop_record" where
  "property_record_custom Y_name t =
     (case property_record Y_name t of
        Inl e \<Rightarrow>
          (if e = IndexError then
             Inr (Map.empty(''I'' \<mapsto> Values [NaN], ''V'' \<mapsto> Values [NaN],
                    Y_name \<mapsto> Values [NaN], ''index'' \<mapsto> Values [NaN]))
           else Inl e)
      | Inr r \<Rightarrow> Inr r)"

text \<open>
  \<open>Y_name\<close> is the first local variable of the caller whose value \<open>np.array_equal\<close> finds
  equal to \<open>Y\<close>; of the caller's variables only \<open>I\<close>, \<open>V\<close> and the array handed over as \<open>Y\<close>
  are arrays of floats. Arrays are equal when they have one shape and all entries are equal
  as floats, so an array that holds a NaN is not equal to itself, and the \<open>[0]\<close> on an empty
  list raises IndexError.
\<close>

definition array_equal :: "arr2 \<Rightarrow> arr2 \<Rightarrow> bool" where
  "array_equal a b =
     (map length a = map length b \<and> list_all2 (list_all2 fl_eq) a b)"

definition caller_name :: "(string \<times> arr2 option) list \<Rightarrow> arr2 \<Rightarrow> error + string" where
  "caller_name locals Y =
     (case filter (\<lambda>(key, val). case val of None \<Rightarrow> False | Some a \<Rightarrow> array_equal a Y) locals of
        [] \<Rightarrow> Inl IndexError
      | (key, val) # _ \<Rightarrow> Inr key)"

text \<open>\<open>a[::2]\<close> and \<open>a[1::2]\<close>.\<close>

fun even_rows :: "'a list \<Rightarrow> 'a list" where
  "even_rows [] = []"
| "even_rows [a] = [a]"
| "even_rows (a # b # cs) = a # even_rows cs"

definition odd_rows :: "'a list \<Rightarrow> 'a list" where
  "odd_rows a = even_rows (drop 1 a)"

text \<open>
  The branch \<open>self.scan_dim == 1\<close> of \<open>_classify_jump\<close> for the sweep types 0 and 1: the
  critical currents over the traces \<open>I_c\<close>, \<open>V_c\<close>, \<open>peaks_c\<close>, the retrapping currents over
  \<open>I_r\<close>, \<open>V_r\<close>, \<open>peaks_r\<close> (computed whether or not \<open>Ir\<close> asks for them), then the property
  records over all traces. The \<open>map\<close>s end with the shortest of their arguments.
\<close>

datatype deriv_result =
    Trace arr1
  | Trace_nan
  | Jumps jump_currents "fl list option" "prop_record list"
  | Events "prop_record list"

definition classify_1D ::
  "string \<Rightarrow> fl \<Rightarrow> fl \<Rightarrow> nat \<Rightarrow> bool \<Rightarrow> arr2 \<times> arr2 \<times> (index_array \<times> properties) list
     \<Rightarrow> arr2 \<times> arr2 \<times> (index_array \<times> properties) list
     \<Rightarrow> arr2 \<times> arr2 \<times> arr2 \<times> (index_array \<times> properties) list \<Rightarrow> error + deriv_result" where
  "classify_1D Y_name tol voff window Ir c r a =
     (case (c, r, a) of ((I_c, V_c, peaks_c), (I_r, V_r, peaks_r), (I', V', Y, peaks)) \<Rightarrow>
        bind_err (traverse (critical_current tol voff window)
                    (zip I_c (zip V_c (map fst peaks_c)))) (\<lambda>picked.
        bind_err (np_array_picked picked) (\<lambda>I_cs.
        bind_err (traverse (retrapping_current tol voff window)
                    (zip I_r (zip V_r (map fst peaks_r)))) (\<lambda>I_rs.
        bind_err (traverse (property_record Y_name) (zip peaks (zip I' (zip V' Y)))) (\<lambda>props.
          Inr (Jumps I_cs (if Ir then Some I_rs else None) props))))))"

text \<open>
  \<open>_classify_jump\<close> for arrays of two axes, in three steps. First it finds the name of
  \<open>Y\<close>. Then, when no voltage offset is cached and the sweep type is 0 or 1, it computes
  one with \<open>self.get_offset(x=V, y=I)\<close>.
\<close>

definition ensure_offset :: "ivc \<Rightarrow> arr2 \<Rightarrow> arr2 option \<Rightarrow> error + ivc" where
  "ensure_offset self V' I_opt =
     (if V_offset self = None \<and> (sweeptype self = Some 0 \<or> sweeptype self = Some 1)
      then bind_err (get_offset self (Some V') I_opt (Fin (20 / 1000000)) (Fin 0) False)
             (\<lambda>r. Inr (snd r))
      else Inr self)"

text \<open>
  Last it selects the traces by sweep type and dispatches on \<open>self.scan_dim\<close>. The
  branches for the scan dimensions 2 and 3 work on arrays of three and four axes and are
  left unspecified here. A current array that is \<open>None\<close> cannot be sliced or iterated.
\<close>

definition classify_traces ::
  "ivc \<Rightarrow> string \<Rightarrow> arr2 option \<Rightarrow> arr2 \<Rightarrow> arr2 \<Rightarrow> (index_array \<times> properties) list
     \<Rightarrow> fl \<Rightarrow> nat \<Rightarrow> bool \<Rightarrow> error + deriv_result" where
  "classify_traces self Y_name I_opt V' Y peaks tol window Ir =
     (if sweeptype self = Some 0 then
        (if scan_dim self = Some 1 then
           (case (I_opt, V_offset self) of
              (Some I', Some voff) \<Rightarrow>
                classify_1D Y_name tol voff window Ir (I', V', peaks) (I', V', peaks)
                  (I', V', Y, peaks)
            | _ \<Rightarrow> Inl TypeError)
         else if scan_dim self = Some 2 \<or> scan_dim self = Some 3 then undefined
         else Inl ValueError)
      else if sweeptype self = Some 1 then
        (case I_opt of
           None \<Rightarrow> Inl TypeError
         | Some I' \<Rightarrow>
             (if scan_dim self = Some 1 then
                (case V_offset self of
                   None \<Rightarrow> Inl TypeError
                 | Some voff \<Rightarrow>
                     classify_1D Y_name tol voff window Ir
                       (even_rows I', even_rows V', even_rows peaks)
                       (odd_rows I', odd_rows V', odd_rows peaks)
                       (I', V', Y, peaks))
              else if scan_dim self = Some 2 \<or> scan_dim self = Some 3 then undefined
              else Inl ValueError))
      else
        (if scan_dim self = Some 1 then
           (case I_opt of
              None \<Rightarrow> Inl TypeError
            | Some I' \<Rightarrow>
                bind_err (traverse (property_record_custom Y_name) (zip peaks (zip I' (zip V' Y))))
                  (\<lambda>props. Inr (Events props)))
         else if scan_dim self = Some 2 \<or> scan_dim self = Some 3 then undefined
         else Inl NotImplementedError))"

definition classify_jump ::
  "ivc \<Rightarrow> arr2 option \<Rightarrow> arr2 \<Rightarrow> arr2 \<Rightarrow> (string \<times> arr2 option) list
     \<Rightarrow> (index_array \<times> properties) list \<Rightarrow> fl \<Rightarrow> nat \<Rightarrow> bool \<Rightarrow> error + (deriv_result \<times> ivc)" where
  "classify_jump self I_opt V' Y locals peaks tol window Ir =
     bind_err (caller_name locals Y) (\<lambda>Y_name.
     bind_err (ensure_offset self V' I_opt) (\<lambda>self1.
     bind_err (classify_traces self1 Y_name I_opt V' Y peaks tol window Ir) (\<lambda>res.
       Inr (res, self1))))"

text \<open>
  The part of \<open>get_Ic_deriv\<close> for the traces of a scan: defaults for the arrays and the
  keyword arguments, one run of the wrapped peak finder per trace of \<open>dVdI\<close>, then the
  classification with \<open>Y=dVdI\<close>. \<open>np.array\<close> packs the answers of the peak finder, which have
  different lengths, into an array of objects, as numpy did when the class was written.
\<close>

definition deriv_whole ::
  "ivc \<Rightarrow> arr2 option \<Rightarrow> arr2 \<Rightarrow> arr2 option \<Rightarrow> bool \<Rightarrow> fl \<Rightarrow> nat \<Rightarrow> finder_id
     \<Rightarrow> peak_finder \<Rightarrow> finder_kwargs \<Rightarrow> error + (deriv_result \<times> ivc)" where
  "deriv_whole self I_arg V' dVdI_arg Ir tol window fid finder kwargs =
     (let I' = (case I_arg of None \<Rightarrow> I self | Some a \<Rightarrow> Some a);
          dVdI' = (case dVdI_arg of None \<Rightarrow> dVdI self | Some a \<Rightarrow> Some a);
          kw = finder_defaults 100 fid kwargs
      in case dVdI' of
           None \<Rightarrow> Inl TypeError
         | Some d \<Rightarrow>
             bind_err (traverse (wrap_finder finder kw) d) (\<lambda>peaks.
               classify_jump self I' V' d
                 [(''I'', I'), (''V'', Some V'), (''dVdI'', Some d)] peaks tol window Ir))"

text \<open>
  \<open>get_Ic_deriv\<close> tests \<open>len(V.shape)-1 == 0\<close> first. For a single trace it returns the
  currents at the peaks, or \<open>np.nan\<close> when the indexing raises IndexError. The equations
  cover a single trace together with its current and derivative traces, and the traces of a
  scan together with currents and derivatives of two axes or none.
\<close>

fun get_Ic_deriv ::
  "ivc \<Rightarrow> nparg option \<Rightarrow> nparg option \<Rightarrow> nparg option \<Rightarrow> bool \<Rightarrow> fl \<Rightarrow> nat \<Rightarrow> finder_id
     \<Rightarrow> peak_finder \<Rightarrow> finder_kwargs \<Rightarrow> error + (deriv_result \<times> ivc)" where
  "get_Ic_deriv self I_arg None dVdI_arg Ir tol window fid finder kwargs = Inl AttributeError"
| "get_Ic_deriv self (Some (Arr1 i)) (Some (Arr1 v)) (Some (Arr1 d)) Ir tol window fid finder kwargs =
     bind_err (wrap_finder finder kwargs d) (\<lambda>peaks.
       case fancy i (fst peaks) of
         Inr c \<Rightarrow> Inr (Trace c, self)
       | Inl e \<Rightarrow> if e = IndexError then Inr (Trace_nan, self) else Inl e)"
| "get_Ic_deriv self None (Some (Arr2 v)) None Ir tol window fid finder kwargs =
     deriv_whole self None v None Ir tol window fid finder kwargs"
| "get_Ic_deriv self None (Some (Arr2 v)) (Some (Arr2 d)) Ir tol window fid finder kwargs =
     deriv_whole self None v (Some d) Ir tol window fid finder kwargs"
| "get_Ic_deriv self (Some (Arr2 i)) (Some (Arr2 v)) None Ir tol window fid finder kwargs =
     deriv_whole self (Some i) v None Ir tol window fid finder kwargs"
| "get_Ic_deriv self (Some (Arr2 i)) (Some (Arr2 v)) (Some (Arr2 d)) Ir tol window fid finder kwargs =
     deriv_whole self (Some i) v (Some d) Ir tol window fid finder kwargs"

lemma bind_err_fail:
  assumes "\<And>x. m = Inr x \<Longrightarrow> \<exists>e. f x = Inl e"
  shows "\<exists>e. bind_err m f = Inl e"
  using assms by (cases m) auto

lemma traverse_fail:
  "k < length xs \<Longrightarrow> f (xs ! k) = Inl e0 \<Longrightarrow> \<exists>e. traverse f xs = Inl e"
proof (induction xs arbitrary: k)
  case Nil
  then show ?case by simp
next
  case (Cons a as)
  show ?case
  proof (cases k)
    case 0
    then show ?thesis using Cons.prems by simp
  next
    case (Suc j)
    then have "\<exists>e. traverse f as = Inl e" using Cons.IH [of j] Cons.prems by simp
    then show ?thesis by (cases "f a") auto
  qed
qed

lemma traverse_Inr:
  "traverse f xs = Inr ys \<Longrightarrow> length ys = length xs \<and> (\<forall>k<length xs. f (xs ! k) = Inr (ys ! k))"
proof (induction xs arbitrary: ys)
  case Nil
  then show ?case by simp
next
  case (Cons a as)
  from Cons.prems obtain b bs where b: "f a = Inr b" and bs: "traverse f as = Inr bs"
    and ys: "ys = b # bs"
    by (auto elim!: bind_err_InrE)
  show ?case using Cons.IH [OF bs] b ys by (auto simp: nth_Cons split: nat.splits)
qed

lemma wrap_finder_no_peak:
  "finder kw x = Inr ([], props) \<Longrightarrow> wrap_finder finder kw x = Inr (Bools [False], Map.empty)"
  by (simp add: wrap_finder_def)

lemma property_record_no_peak:
  "length i \<noteq> 1 \<Longrightarrow> property_record Y_name ((Bools [False], props), i, v, y) = Inl IndexError"
  by (simp add: property_record_def fancy_def)

lemma classify_1D_no_peak:
  assumes "k < length peaks" "k < length i" "k < length v" "k < length y"
    and "fst (peaks ! k) = Bools [False]" and "length (i ! k) \<noteq> 1"
  shows "\<exists>e. classify_1D Y_name tol voff window Ir c r (i, v, y, peaks) = Inl e"
proof -
  let ?rows = "zip peaks (zip i (zip v y))"
  have "k < length ?rows" using assms by simp
  moreover have "property_record Y_name (?rows ! k) = Inl IndexError"
    using assms property_record_no_peak [of "i ! k" Y_name "snd (peaks ! k)" "v ! k" "y ! k"]
    by (cases "peaks ! k") simp
  ultimately obtain e where "traverse (property_record Y_name) ?rows = Inl e"
    using traverse_fail by blast
  then show ?thesis
    by (cases c; cases r) (auto simp: classify_1D_def intro!: bind_err_fail)
qed

lemma get_offset_keeps:
  assumes "get_offset self x y th off yr = Inr (r, self')"
  shows "sweeptype self' = sweeptype self \<and> scan_dim self' = scan_dim self \<and> V_offset self' \<noteq> None"
proof -
  from assms obtain iv s1 where q: "get_offsets self x y th off yr = Inr (iv, s1)"
    and s: "self' = s1\<lparr>I_offset := Some (nanmean [fst iv]), V_offset := Some (nanmean [snd iv])\<rparr>"
    unfolding get_offset_def by (elim bind_err_InrE) (auto simp: Let_def)
  show ?thesis using get_offsets_state [OF q] s by simp
qed

lemma ensure_offset_keeps:
  assumes "ensure_offset self v io = Inr s"
  shows "sweeptype s = sweeptype self \<and> scan_dim s = scan_dim self"
proof (cases "V_offset self = None \<and> (sweeptype self = Some 0 \<or> sweeptype self = Some 1)")
  case True
  then obtain r where "get_offset self (Some v) io (Fin (20 / 1000000)) (Fin 0) False = Inr r"
    and "s = snd r"
    using assms unfolding ensure_offset_def by (auto elim!: bind_err_InrE)
  then show ?thesis using get_offset_keeps [of self "Some v" io _ _ False "fst r" "snd r"] by simp
next
  case False
  then show ?thesis using assms by (auto simp: ensure_offset_def)
qed

lemma classify_traces_no_peak:
  assumes "sweeptype self = Some 0 \<or> sweeptype self = Some 1" and "scan_dim self = Some 1"
    and "k < length peaks" "k < length i" "k < length v" "k < length y"
    and "fst (peaks ! k) = Bools [False]" and "length (i ! k) \<noteq> 1"
  shows "\<exists>e. classify_traces self Y_name (Some i) v y peaks tol window Ir = Inl e"
  using assms(1,2) classify_1D_no_peak [OF assms(3-8)]
  by (auto simp: classify_traces_def split: option.splits)

lemma classify_jump_no_peak:
  assumes "sweeptype self = Some 0 \<or> sweeptype self = Some 1" and "scan_dim self = Some 1"
    and "k < length peaks" "k < length i" "k < length v" "k < length y"
    and "fst (peaks ! k) = Bools [False]" and "length (i ! k) \<noteq> 1"
  shows "\<exists>e. classify_jump self (Some i) v y locals peaks tol window Ir = Inl e"
  unfolding classify_jump_def
proof (rule bind_err_fail, rule bind_err_fail, rule bind_err_fail)
  fix Y_name s
  assume "ensure_offset self v (Some i) = Inr s"
  then have "sweeptype s = sweeptype self \<and> scan_dim s = scan_dim self"
    by (rule ensure_offset_keeps)
  then obtain e where "classify_traces s Y_name (Some i) v y peaks tol window Ir = Inl e"
    using classify_traces_no_peak [of s k peaks i v y Y_name tol window Ir] assms by auto
  then show "\<And>x. classify_traces s Y_name (Some i) v y peaks tol window Ir = Inr x
      \<Longrightarrow> \<exists>e. Inr (x, s) = Inl e"
    by simp
qed

text \<open>
  Claim C9. The claim: when the peak finder finds no peak in one of the traces,
  \<open>get_Ic_deriv\<close> still gives a well-formed, empty result for that trace. The code, for the
  sweep types 0 and 1 and scan dimension 1: the wrapper turns the empty answer into the
  index array \<open>[False]\<close>, and \<open>_classify_jump\<close> then raises. At the latest the property
  record of that trace fails, since an array of one boolean cannot index a trace of another
  length (IndexError); before that, \<open>peak1D[0][masks_c1D][0]\<close> raises IndexError when the
  mask of the single entry is false. Only the branch for a custom sweep type catches the
  IndexError.
\<close>

theorem get_Ic_deriv_no_peak:
  assumes "sweeptype self = Some 0 \<or> sweeptype self = Some 1" and "scan_dim self = Some 1"
    and "k < length i" "k < length v" "k < length d" and "length (i ! k) \<noteq> 1"
    and "finder (finder_defaults 100 fid kw) (d ! k) = Inr ([], props)"
  shows "\<exists>e. get_Ic_deriv self (Some (Arr2 i)) (Some (Arr2 v)) (Some (Arr2 d)) Ir tol window
               fid finder kw = Inl e"
proof -
  let ?kw = "finder_defaults 100 fid kw"
  have "\<exists>e. classify_jump self (Some i) v d locals peaks tol window Ir = Inl e"
    if p: "traverse (wrap_finder finder ?kw) d = Inr peaks" for peaks locals
  proof -
    have "length peaks = length d" and "wrap_finder finder ?kw (d ! k) = Inr (peaks ! k)"
      using traverse_Inr [OF p] assms(5) by auto
    then have "k < length peaks" and "fst (peaks ! k) = Bools [False]"
      using assms(5,7) wrap_finder_no_peak [of finder ?kw "d ! k" props]
      by (simp_all, metis fst_conv)
    then show ?thesis using classify_jump_no_peak assms by blast
  qed
  then show ?thesis
    by (auto simp: deriv_whole_def Let_def intro!: bind_err_fail)
qed

theorem get_Ic_deriv_no_peak_witness:
  "\<exists>e. get_Ic_deriv halfswing_example
         (Some (Arr2 [[Fin (-2), Fin (-1), Fin 0, Fin 1, Fin 2], [Fin 2, Fin 1, Fin 0, Fin (-1), Fin (-2)]]))
         (Some (Arr2 [[Fin (-5), Fin 0, Fin 0, Fin 1, Fin 5], [Fin 5, Fin 0, Fin 0, Fin 0, Fin (-5)]]))
         (Some (Arr2 [[Fin 4, Fin 5, Fin 1, Fin 1, Fin 4], [Fin 4, Fin 5, Fin 0, Fin 0, Fin 5]]))
         False (Fin (20 / 1000000)) 5 Find_peaks (constant_finder [] []) Map.empty = Inl e"
  using get_Ic_deriv_no_peak
    [where self = halfswing_example and k = 0 and fid = Find_peaks
       and finder = "constant_finder [] []" and kw = Map.empty
       and props = "Map.empty(''prominences'' \<mapsto> [])"
       and i = "[[Fin (-2), Fin (-1), Fin 0, Fin 1, Fin 2], [Fin 2, Fin 1, Fin 0, Fin (-1), Fin (-2)]]"
       and v = "[[Fin (-5), Fin 0, Fin 0, Fin 1, Fin 5], [Fin 5, Fin 0, Fin 0, Fin 0, Fin (-5)]]"
       and d = "[[Fin 4, Fin 5, Fin 1, Fin 1, Fin 4], [Fin 4, Fin 5, Fin 0, Fin 0, Fin 5]]"]
  by (simp add: halfswing_example_def constant_finder_def)

lemma get_offset_example_explicit:
  "get_offset halfswing_example
     (Some [[Fin (-5), Fin 0, Fin 0, Fin 1, Fin 5], [Fin 5, Fin 0, Fin 0, Fin 0, Fin (-5)]])
     (Some [[Fin (-2), Fin (-1), Fin 0, Fin 1, Fin 2], [Fin 2, Fin 1, Fin 0, Fin (-1), Fin (-2)]])
     (Fin (1 / 50000)) (Fin 0) False
   = Inr ((Fin 0, Fin 0),
          halfswing_example\<lparr>I_offsets := Some (Fin 0), V_offsets := Some (Fin 0),
            I_offset := Some (Fin 0), V_offset := Some (Fin 0)\<rparr>)"
  by (simp add: halfswing_example_def init_def get_offset_def get_offsets_def by_bias_def
      forward_or_reversed_def offsets_of_window_def mean_of_nanmeans_def in_window_def
      np_place2_def np_place1_def extrema_def reduce_row_def row_def row_axis_def
      nanmin_def nanmax_def nan_reduce_def fl_min_def fl_max_def np_mean_def nanmean_def
      Let_def)

text \<open>
  The half-swing example with a peak finder that finds nothing: the mean of the two
  samples before index 0, which are the last two samples of the trace, is outside the band,
  the mask of the entry \<open>False\<close> is false, and \<open>peak1D[0][masks_c1D][0]\<close> raises.
\<close>

lemma get_Ic_deriv_no_peak_example:
  "get_Ic_deriv halfswing_example
     (Some (Arr2 [[Fin (-2), Fin (-1), Fin 0, Fin 1, Fin 2], [Fin 2, Fin 1, Fin 0, Fin (-1), Fin (-2)]]))
     (Some (Arr2 [[Fin (-5), Fin 0, Fin 0, Fin 1, Fin 5], [Fin 5, Fin 0, Fin 0, Fin 0, Fin (-5)]]))
     (Some (Arr2 [[Fin 4, Fin 5, Fin 1, Fin 1, Fin 4], [Fin 4, Fin 5, Fin 0, Fin 0, Fin 5]]))
     False (Fin (20 / 1000000)) 5 Find_peaks (constant_finder [] []) Map.empty = Inl IndexError"
proof -
  have off: "V_offset halfswing_example = None" "sweeptype halfswing_example = Some 0"
    "scan_dim halfswing_example = Some 1"
    by (simp_all add: halfswing_example_def init_def)
  have u: "[0..<2::nat] = [0, 1]"
    by (simp add: upt_rec)
  show ?thesis
    by (simp add: deriv_whole_def finder_defaults_def constant_finder_def wrap_finder_def
        classify_jump_def caller_name_def array_equal_def ensure_offset_def off
        get_offset_example_explicit Let_def classify_traces_def classify_1D_def
        critical_current_def jump_mask_def window_means_def index_ints_def item_def np_mean_def
        in_window_def first_under_def bool_index_def u)
qed

section \<open>Jump detection in the frequency domain: \<open>get_Ic_dft\<close>\<close>

text \<open>
  \<open>np.linspace(start, stop, num)\<close>: \<open>num\<close> samples from \<open>start\<close> in equal steps, the last
  one set to \<open>stop\<close>; and \<open>V - np.linspace(start=V[0], stop=V[-1], num=V.shape[-1])\<close> for one
  trace, where reading the first sample of an empty trace raises IndexError.
\<close>

definition linspace :: "fl \<Rightarrow> fl \<Rightarrow> nat \<Rightarrow> arr1" where
  "linspace start stop num =
     (if num = 0 then []
      else if num = 1 then [start]
      else map (\<lambda>j. fl_add (fl_mul (Fin (real j)) (fl_div (fl_sub stop start) (Fin (real (num - 1)))))
                      start) [0..<num - 1] @ [stop])"

definition offset_slope :: "arr1 \<Rightarrow> error + arr1" where
  "offset_slope v =
     (if v = [] then Inl IndexError
      else Inr (map2 fl_sub v (linspace (hd v) (last v) (length v))))"

fun fl_abs :: "fl \<Rightarrow> fl" where
  "fl_abs (Fin a) = Fin \<bar>a\<bar>"
| "fl_abs NaN = NaN"
| "fl_abs _ = PInf"

text \<open>
  The nested function \<open>_get_deriv_dft(V_corr)\<close> has one positional parameter without a
  default; a call without the argument raises TypeError before its body runs. The body is
  the transform of one trace with \<open>np.fft\<close>: \<open>ifft(1j * f * exp(-s * f ** 2) * fft(V_corr))\<close>.
  The library transform of one trace is the parameter \<open>dft\<close>, the body of the nested
  function for an array is \<open>body\<close>; the complex values are typed as arrays of floats.
\<close>

type_synonym transform = "fl \<Rightarrow> arr1 \<Rightarrow> arr1"

definition get_deriv_dft :: "('a \<Rightarrow> 'b) \<Rightarrow> 'a option \<Rightarrow> error + 'b" where
  "get_deriv_dft body arg =
     (case arg of None \<Rightarrow> Inl TypeError | Some a \<Rightarrow> Inr (body a))"

text \<open>
  The part of \<open>get_Ic_dft\<close> for the traces of a scan: defaults, the offset slope along the
  last axis as \<open>self.scan_dim\<close> names it (an array of two axes has no third and fourth
  index), then the call \<open>_get_deriv_dft()\<close>, the peaks of the magnitude of every trace and
  the classification with \<open>Y=dV_smooth\<close>.
\<close>

definition dft_whole ::
  "transform \<Rightarrow> ivc \<Rightarrow> arr2 option \<Rightarrow> arr2 \<Rightarrow> arr2 option \<Rightarrow> fl \<Rightarrow> bool \<Rightarrow> fl \<Rightarrow> nat
     \<Rightarrow> finder_id \<Rightarrow> peak_finder \<Rightarrow> finder_kwargs \<Rightarrow> error + (deriv_result \<times> ivc)" where
  "dft_whole dft self I_arg V' dVdI_arg s Ir tol window fid finder kwargs =
     (let I' = (case I_arg of None \<Rightarrow> I self | Some a \<Rightarrow> Some a);
          kw = finder_defaults (1 / 100000) fid kwargs
      in bind_err
           (if scan_dim self = Some 1 then traverse offset_slope V'
            else if scan_dim self = Some 2 \<or> scan_dim self = Some 3 then Inl IndexError
            else Inl ValueError) (\<lambda>V_corr'.
         bind_err (get_deriv_dft (map (dft s)) None) (\<lambda>dV_smooth.
         bind_err (traverse (\<lambda>dV_smooth1D. wrap_finder finder kw (map fl_abs dV_smooth1D))
                     dV_smooth) (\<lambda>peaks.
           classify_jump self I' V' dV_smooth
             [(''I'', I'), (''V'', Some V'), (''dVdI'', dVdI_arg), (''V_corr'', Some V_corr'),
              (''dV_smooth'', Some dV_smooth)] peaks tol window Ir))))"

text \<open>
  \<open>get_Ic_dft\<close> tests \<open>len(V.shape)-1 == 0\<close> first. For a single trace it passes the
  detrended trace to \<open>_get_deriv_dft\<close> and returns the currents at the peaks, or \<open>np.nan\<close>
  when the indexing raises IndexError. The equations cover a single trace together with its
  current trace, and the traces of a scan together with arrays of two axes or none.
\<close>

fun get_Ic_dft ::
  "transform \<Rightarrow> ivc \<Rightarrow> nparg option \<Rightarrow> nparg option \<Rightarrow> arr2 option \<Rightarrow> fl \<Rightarrow> bool \<Rightarrow> fl \<Rightarrow> nat
     \<Rightarrow> finder_id \<Rightarrow> peak_finder \<Rightarrow> finder_kwargs \<Rightarrow> error + (deriv_result \<times> ivc)" where
  "get_Ic_dft dft self I_arg None dVdI_arg s Ir tol window fid finder kwargs = Inl AttributeError"
| "get_Ic_dft dft self (Some (Arr1 i)) (Some (Arr1 v)) dVdI_arg s Ir tol window fid finder kwargs =
     bind_err (offset_slope v) (\<lambda>V_corr'.
     bind_err (get_deriv_dft (dft s) (Some V_corr')) (\<lambda>dV_smooth.
     bind_err (wrap_finder finder kwargs dV_smooth) (\<lambda>peaks.
       case fancy i (fst peaks) of
         Inr c \<Rightarrow> Inr (Trace c, self)
       | Inl e \<Rightarrow> if e = IndexError then Inr (Trace_nan, self) else Inl e)))"
| "get_Ic_dft dft self None (Some (Arr2 v)) dVdI_arg s Ir tol window fid finder kwargs =
     dft_whole dft self None v dVdI_arg s Ir tol window fid finder kwargs"
| "get_Ic_dft dft self (Some (Arr2 i)) (Some (Arr2 v)) dVdI_arg s Ir tol window fid finder kwargs =
     dft_whole dft self (Some i) v dVdI_arg s Ir tol window fid finder kwargs"

lemma dft_whole_raises:
  "\<exists>e. dft_whole dft self I_arg v dVdI_arg s Ir tol window fid finder kw = Inl e"
  unfolding dft_whole_def Let_def
  by (rule bind_err_fail) (simp add: get_deriv_dft_def)

text \<open>
  Claim C1. The claim: for a loaded dataset of scan dimension 1, 2 or 3 the whole-dataset
  detector \<open>get_Ic_dft\<close> detrends, transforms, finds the peaks and returns the classified
  currents with the property records. The code: the whole-dataset part calls
  \<open>_get_deriv_dft()\<close> without the detrended array, so every such call of \<open>get_Ic_dft\<close>
  raises and none returns a result; for scan dimension 1 and traces that are not empty the
  exception is the TypeError of the missing argument.
\<close>

theorem get_Ic_dft_whole_dataset_raises:
  "(\<exists>e. get_Ic_dft dft self (map_option Arr2 i) (Some (Arr2 v)) dVdI_arg s Ir tol window fid
           finder kw = Inl e)
   \<and> (scan_dim self = Some 1 \<and> [] \<notin> set v \<longrightarrow>
        get_Ic_dft dft self (map_option Arr2 i) (Some (Arr2 v)) dVdI_arg s Ir tol window fid
          finder kw = Inl TypeError)"
proof -
  have whole: "get_Ic_dft dft self (map_option Arr2 i) (Some (Arr2 v)) dVdI_arg s Ir tol window
      fid finder kw = dft_whole dft self i v dVdI_arg s Ir tol window fid finder kw"
    by (cases i) simp_all
  have "\<exists>c. traverse offset_slope v = Inr c" if "[] \<notin> set v"
    using that by (induction v) (auto simp: offset_slope_def)
  then have "scan_dim self = Some 1 \<and> [] \<notin> set v \<longrightarrow>
      dft_whole dft self i v dVdI_arg s Ir tol window fid finder kw = Inl TypeError"
    by (auto simp: dft_whole_def Let_def get_deriv_dft_def)
  then show ?thesis using whole dft_whole_raises by simp
qed

theorem get_Ic_dft_whole_dataset_raises_witness:
  "get_Ic_dft (\<lambda>s a. a) halfswing_example None
     (Some (Arr2 [[Fin (-5), Fin 0, Fin 0, Fin 1, Fin 5], [Fin 5, Fin 0, Fin 0, Fin 0, Fin (-5)]]))
     None (Fin 10) False (Fin (20 / 1000000)) 5 Find_peaks (constant_finder [2] [Fin 1]) Map.empty
   = Inl TypeError"
  using get_Ic_dft_whole_dataset_raises
    [where dft = "\<lambda>s a. a" and self = halfswing_example and i = None
       and v = "[[Fin (-5), Fin 0, Fin 0, Fin 1, Fin 5], [Fin 5, Fin 0, Fin 0, Fin 0, Fin (-5)]]"
       and dVdI_arg = None and s = "Fin 10" and Ir = False and tol = "Fin (20 / 1000000)"
       and window = 5 and fid = Find_peaks and finder = "constant_finder [2] [Fin 1]"
       and kw = Map.empty]
  by (simp add: halfswing_example_def)

section \<open>Loading a measurement: \<open>get_bias\<close> and \<open>load\<close>\<close>










































lemma get_dydx_loaded_traces:
  "get_dydx (init ''mo'') [Fin 0, Fin 2, Fin 4] (Some [Fin 0, Fin 1, Fin 2]) Savgol_filter
     (\<lambda>kw a. Inr a) Map.empty = Inr [NaN, Fin 2, Fin 2]"
  by (simp add: get_dydx_def np_divide_def)




end
